theory Spec2Isabelle
  imports Complex_Main "HOL-Library.AList"
begin

section \<open>Markup\<close>

text \<open>
  The components of \<^verbatim>\<open>src/components/layout.js\<close>, the blog index and the bio build
  React element trees. A style object is an association list from property names to
  values in insertion order; a style value is a string or a number.
\<close>

datatype css_value = CssStr string | CssNum int

type_synonym style = "(string \<times> css_value) list"

text \<open>
  The values that the components hand to elements as props: a string, an array of
  strings, a style object, and the object \<^verbatim>\<open>{__html: s}\<close> that
  \<^verbatim>\<open>dangerouslySetInnerHTML\<close> takes.
\<close>

datatype prop_value =
    PString string
  | PStrings "string list"
  | PStyle style
  | PHtml string

text \<open>
  An element is either a host element (\<^verbatim>\<open>div\<close>, \<^verbatim>\<open>h1\<close>, ...) or an element of a
  component whose body is not part of these sources (\<^verbatim>\<open>Link\<close> of gatsby, \<^verbatim>\<open>SEO\<close>):
  the latter stay unexpanded, with their props and children.
\<close>

datatype etype = Host string | External string

text \<open>
  \<open>Text\<close> and \<open>Num\<close> are string and number children, \<open>Arr\<close> an array child (the
  result of \<^verbatim>\<open>posts.map\<close>), and \<open>Rendered name key out\<close> an element of a component
  defined in these sources, with its \<^verbatim>\<open>key\<close> and the markup that the component
  returns for its props.
\<close>

datatype element =
    Text string
  | Num int
  | Arr "element list"
  | Elem etype "(string \<times> prop_value) list" "element list"
  | Rendered string "string option" element

section \<open>What the components take from outside\<close>

text \<open>
  \<^verbatim>\<open>src/utils/typography.js\<close> exports \<^verbatim>\<open>rhythm\<close> and \<^verbatim>\<open>scale\<close> of a
  \<^verbatim>\<open>Typography\<close> object of the npm package of that name, which is not part of the
  sources: both are parameters here. Their arguments in the components are
  1.5, 24, 3 / 4, 1 / 4 and 2.5, all of which a binary float holds exactly, so they are
  rationals.
\<close>

record typography =
  rhythm :: "rat \<Rightarrow> string"
  scale :: "rat \<Rightarrow> style"

text \<open>
  \<^verbatim>\<open>new Date()\<close> reads the clock; the object it returns is the local date and time
  of that moment, and \<^verbatim>\<open>getFullYear()\<close> is its calendar year.
\<close>

record js_date =
  full_year :: int
  month :: nat
  day :: nat
  hours :: nat
  minutes :: nat
  seconds :: nat
  milliseconds :: nat

definition getFullYear :: "js_date \<Rightarrow> int" where
  "getFullYear d = full_year d"

text \<open>\<^verbatim>\<open>flow(f, g)\<close> of lodash/fp is left-to-right composition.\<close>

definition flow :: "('a \<Rightarrow> 'b) \<Rightarrow> ('b \<Rightarrow> 'c) \<Rightarrow> 'a \<Rightarrow> 'c" where
  "flow f g x = g (f x)"

text \<open>
  \<^verbatim>\<open>a || b\<close> on a string that may be missing: \<^verbatim>\<open>null\<close>, \<^verbatim>\<open>undefined\<close> (here
  \<open>None\<close>) and the empty string are falsy, every other string is truthy.
\<close>

fun js_or :: "string option \<Rightarrow> string \<Rightarrow> string" where
  "js_or None b = b"
| "js_or (Some a) b = (if a = [] then b else a)"

section \<open>Data\<close>

text \<open>
  The nodes that \<^verbatim>\<open>pageQuery\<close> selects. \<^verbatim>\<open>PostLink\<close> guards \<^verbatim>\<open>title\<close> and
  \<^verbatim>\<open>description\<close> with \<^verbatim>\<open>||\<close>, so these two may be missing; the other fields are
  used as they come.
\<close>

record frontmatter =
  title :: "string option"
  date :: string
  description :: "string option"

record fields =
  slug :: string

record node =
  excerpt :: string
  node_fields :: fields
  frontmatter :: frontmatter

record edge =
  node :: node

record allMarkdownRemark =
  edges :: "edge list"

record siteMetadata =
  site_title :: string

record site =
  siteMetadata :: siteMetadata

record page_data =
  site :: site
  allMarkdownRemark :: allMarkdownRemark

record location =
  pathname :: string

text \<open>The result of \<^verbatim>\<open>bioQuery\<close>.\<close>

record social =
  twitter :: string

record bio_siteMetadata =
  author :: string
  social :: social

record bio_site =
  bio_siteMetadata :: bio_siteMetadata

record bio_data =
  bio_site :: bio_site

section \<open>layout.js\<close>

definition rootPath :: "string \<Rightarrow> string" where
  \<comment> \<open>the argument is the global \<^verbatim>\<open>__PATH_PREFIX__\<close>\<close>
  "rootPath PATH_PREFIX = PATH_PREFIX @ ''/''"

definition Title :: "string \<Rightarrow> element" where
  "Title t =
     Elem (External ''Link'')
       [(''style'', PStyle [(''boxShadow'', CssStr ''none''),
                            (''textDecoration'', CssStr ''none''),
                            (''color'', CssStr ''inherit'')]),
        (''to'', PString ''/'')]
       [Text t]"

record layout_props =
  location :: location
  layout_title :: string
  children :: "element list"

record layout_props_header = layout_props +
  header :: element

text \<open>
  The first stage of \<^verbatim>\<open>Layout\<close>: \<^verbatim>\<open>addProps\<close> of ad-hok returns the props it is
  given together with the ones that its callback computes, here \<^verbatim>\<open>header\<close>. The
  spread \<^verbatim>\<open>...scale(1.5)\<close> comes first in the style of the \<^verbatim>\<open>h1\<close>, so
  \<^verbatim>\<open>marginBottom\<close> and \<^verbatim>\<open>marginTop\<close> overwrite what it may hold under these names.
\<close>

definition Layout_addProps ::
  "typography \<Rightarrow> string \<Rightarrow> layout_props \<Rightarrow> layout_props_header" where
  "Layout_addProps ty PATH_PREFIX props =
     \<lparr>location = location props, layout_title = layout_title props,
      children = children props,
      header =
        (if pathname (location props) = rootPath PATH_PREFIX then
           Elem (Host ''h1'')
             [(''style'', PStyle
                 (AList.update ''marginTop'' (CssNum 0)
                   (AList.update ''marginBottom'' (CssStr (rhythm ty 1.5))
                     (scale ty 1.5))))]
             [Rendered ''Title'' None (Title (layout_title props))]
         else
           Elem (Host ''h3'')
             [(''style'', PStyle [(''fontFamily'', CssStr ''Montserrat, sans-serif''),
                                  (''marginTop'', CssNum 0)])]
             [Rendered ''Title'' None (Title (layout_title props))])\<rparr>"

text \<open>
  The second stage. The copyright sign is the character U+00A9.
\<close>

definition Layout_view :: "typography \<Rightarrow> js_date \<Rightarrow> layout_props_header \<Rightarrow> element" where
  "Layout_view ty now props =
     Elem (Host ''div'')
       [(''style'', PStyle
           [(''marginLeft'', CssStr ''auto''),
            (''marginRight'', CssStr ''auto''),
            (''maxWidth'', CssStr (rhythm ty 24)),
            (''padding'', CssStr (rhythm ty 1.5 @ '' '' @ rhythm ty (3 / 4)))])]
       [Elem (Host ''header'') [] [header props],
        Elem (Host ''main'') [] (children props),
        Elem (Host ''footer'') []
          [Text [CHR 0xA9, CHR '' ''],
           Num (getFullYear now),
           Text '', Built with'',
           Text '' '',
           Elem (Host ''a'') [(''href'', PString ''https://www.gatsbyjs.org'')]
             [Text ''Gatsby'']]]"

definition Layout :: "typography \<Rightarrow> string \<Rightarrow> js_date \<Rightarrow> layout_props \<Rightarrow> element" where
  "Layout ty PATH_PREFIX now = flow (Layout_addProps ty PATH_PREFIX) (Layout_view ty now)"

section \<open>bio.js\<close>

text \<open>
  \<^verbatim>\<open>StaticQuery\<close> of gatsby hands the result of its query to its \<^verbatim>\<open>render\<close> prop;
  the result of \<^verbatim>\<open>bioQuery\<close> is a parameter.
\<close>

definition StaticQuery :: "'d \<Rightarrow> ('d \<Rightarrow> element) \<Rightarrow> element" where
  "StaticQuery result render = render result"

definition Bio_render :: "typography \<Rightarrow> bio_data \<Rightarrow> element" where
  "Bio_render ty d =
     Elem (Host ''div'')
       [(''style'', PStyle [(''display'', CssStr ''flex''),
                            (''marginBottom'', CssStr (rhythm ty 2.5))])]
       [Elem (Host ''p'') []
          [Text ''Written by '',
           Elem (Host ''strong'') [] [Text (author (bio_siteMetadata (bio_site d)))],
           Text '' who lives and works in NYC.'']]"

definition Bio :: "typography \<Rightarrow> bio_data \<Rightarrow> element" where
  "Bio ty bioQuery = StaticQuery bioQuery (Bio_render ty)"

section \<open>The blog index\<close>

record postlink_props =
  post :: node

record postlink_props_title = postlink_props +
  link_title :: string

definition PostLink_addProps :: "postlink_props \<Rightarrow> postlink_props_title" where
  "PostLink_addProps props =
     \<lparr>post = post props,
      link_title = js_or (title (frontmatter (post props))) (slug (node_fields (post props)))\<rparr>"

definition PostLink_view :: "typography \<Rightarrow> postlink_props_title \<Rightarrow> element" where
  "PostLink_view ty props =
     Elem (Host ''div'') []
       [Elem (Host ''h3'')
          [(''style'', PStyle [(''marginBottom'', CssStr (rhythm ty (1 / 4)))])]
          [Elem (External ''Link'')
             [(''style'', PStyle [(''boxShadow'', CssStr ''none'')]),
              (''to'', PString (slug (node_fields (post props))))]
             [Text (link_title props)]],
        Elem (Host ''small'') [] [Text (date (frontmatter (post props)))],
        Elem (Host ''p'')
          [(''dangerouslySetInnerHTML'',
            PHtml (js_or (description (frontmatter (post props))) (excerpt (post props))))]
          []]"

definition PostLink :: "typography \<Rightarrow> postlink_props \<Rightarrow> element" where
  "PostLink ty = flow PostLink_addProps (PostLink_view ty)"

text \<open>
  \<^verbatim>\<open>../components/seo\<close> is not among the sources: its element stays unexpanded.
  \<^verbatim>\<open>Bio\<close> takes no props; what it shows comes from its own query.
\<close>

definition BlogIndex ::
  "typography \<Rightarrow> string \<Rightarrow> js_date \<Rightarrow> bio_data \<Rightarrow> page_data \<Rightarrow> location \<Rightarrow> element" where
  "BlogIndex ty PATH_PREFIX now bioQuery data loc =
     (let siteTitle = site_title (siteMetadata (site data));
          posts = edges (allMarkdownRemark data)
      in Rendered ''Layout'' None
           (Layout ty PATH_PREFIX now
              \<lparr>location = loc, layout_title = siteTitle,
               children =
                 [Elem (External ''SEO'')
                    [(''title'', PString ''All posts''),
                     (''keywords'', PStrings [''blog'', ''gatsby'', ''javascript'', ''react''])]
                    [],
                  Rendered ''Bio'' None (Bio ty bioQuery),
                  Arr (map (\<lambda>e. Rendered ''PostLink'' (Some (slug (node_fields (node e))))
                                    (PostLink ty \<lparr>post = node e\<rparr>))
                           posts)]\<rparr>))"

section \<open>The posts as objects in a store\<close>

text \<open>
  The components above are values computed from values. The objects that they are
  handed at run time can be written to, so whether rendering leaves them alone is a
  statement about a store: a list of objects, an address being a position in it. The
  store holds the objects of the result of \<^verbatim>\<open>pageQuery\<close> (an edge \<^verbatim>\<open>{node}\<close>, a node
  \<^verbatim>\<open>{excerpt, fields, frontmatter}\<close> with references to its \<^verbatim>\<open>{slug}\<close> and its
  \<^verbatim>\<open>{title, date, description}\<close>) and the objects that rendering the posts makes: the
  props \<^verbatim>\<open>{post}\<close> of a \<^verbatim>\<open>PostLink\<close> element, the \<^verbatim>\<open>{title}\<close> that the callback of
  \<^verbatim>\<open>addProps\<close> returns, and the props \<^verbatim>\<open>{post, title}\<close> that \<^verbatim>\<open>addProps\<close> returns. The
  markup stays a value.
\<close>

type_synonym addr = nat

datatype js_object =
    Frontmatter_object frontmatter
  | Fields_object fields
  | Node_object string addr addr
  | Edge_object addr
  | Props_object addr
  | Title_object string
  | Props_title_object addr string

type_synonym store = "js_object list"

datatype js_error = TypeError

definition deref :: "store \<Rightarrow> addr \<Rightarrow> js_object option" where
  "deref s a = (if a < length s then Some (s ! a) else None)"

text \<open>A new object goes to the end of the store: no object that is there is touched.\<close>

definition allocate :: "store \<Rightarrow> js_object \<Rightarrow> addr \<times> store" where
  "allocate s obj = (length s, s @ [obj])"

definition and_then :: "'e + 'a \<Rightarrow> ('a \<Rightarrow> 'e + 'b) \<Rightarrow> 'e + 'b" where
  "and_then r f = (case r of Inl e \<Rightarrow> Inl e | Inr x \<Rightarrow> f x)"

text \<open>
  What the destructuring patterns read. Taking a property out of what is not there, or
  out of an object that has no such property to descend into, is the \<^verbatim>\<open>TypeError\<close>
  of destructuring \<^verbatim>\<open>undefined\<close>. \<open>post_of\<close> is \<^verbatim>\<open>props.post\<close>, \<open>node_of\<close> is
  \<^verbatim>\<open>edge.node\<close>, and \<open>frontmatter_of\<close>, \<open>fields_of\<close> and \<open>excerpt_of\<close> are
  \<^verbatim>\<open>post.frontmatter\<close>, \<^verbatim>\<open>post.fields\<close> and \<^verbatim>\<open>post.excerpt\<close>. \<open>title_of\<close> is
  the \<^verbatim>\<open>title\<close> of an object; the stages of \<^verbatim>\<open>PostLink\<close> take it only from the
  objects that \<^verbatim>\<open>addProps\<close> and its callback have just made, which have one, so its
  last branch is never taken in a run of \<^verbatim>\<open>PostLink\<close>.
\<close>

definition post_of :: "store \<Rightarrow> addr \<Rightarrow> js_error + addr" where
  "post_of s a =
     (case deref s a of
        Some (Props_object p) \<Rightarrow> Inr p
      | Some (Props_title_object p t) \<Rightarrow> Inr p
      | _ \<Rightarrow> Inl TypeError)"

definition title_of :: "store \<Rightarrow> addr \<Rightarrow> js_error + string" where
  "title_of s a =
     (case deref s a of
        Some (Title_object t) \<Rightarrow> Inr t
      | Some (Props_title_object p t) \<Rightarrow> Inr t
      | _ \<Rightarrow> Inl TypeError)"

definition node_of :: "store \<Rightarrow> addr \<Rightarrow> js_error + addr" where
  "node_of s a = (case deref s a of Some (Edge_object n) \<Rightarrow> Inr n | _ \<Rightarrow> Inl TypeError)"

definition frontmatter_of :: "store \<Rightarrow> addr \<Rightarrow> js_error + frontmatter" where
  "frontmatter_of s a =
     (case deref s a of
        Some (Node_object e fl fm) \<Rightarrow>
          (case deref s fm of Some (Frontmatter_object f) \<Rightarrow> Inr f | _ \<Rightarrow> Inl TypeError)
      | _ \<Rightarrow> Inl TypeError)"

definition fields_of :: "store \<Rightarrow> addr \<Rightarrow> js_error + fields" where
  "fields_of s a =
     (case deref s a of
        Some (Node_object e fl fm) \<Rightarrow>
          (case deref s fl of Some (Fields_object g) \<Rightarrow> Inr g | _ \<Rightarrow> Inl TypeError)
      | _ \<Rightarrow> Inl TypeError)"

definition excerpt_of :: "store \<Rightarrow> addr \<Rightarrow> js_error + string" where
  "excerpt_of s a =
     (case deref s a of Some (Node_object e fl fm) \<Rightarrow> Inr e | _ \<Rightarrow> Inl TypeError)"

text \<open>
  The first stage of \<^verbatim>\<open>PostLink\<close> on the props at an address. The callback reads
  \<^verbatim>\<open>post.frontmatter.title\<close> and \<^verbatim>\<open>post.fields.slug\<close> and returns a new object
  \<^verbatim>\<open>{title: title || slug}\<close>; \<^verbatim>\<open>addProps\<close> returns a new object with the props it was
  given and the ones of that object.
\<close>

definition PostLink_addProps_st :: "store \<Rightarrow> addr \<Rightarrow> js_error + addr \<times> store" where
  "PostLink_addProps_st s props =
     and_then (post_of s props) (\<lambda>p.
     and_then (frontmatter_of s p) (\<lambda>f.
     and_then (fields_of s p) (\<lambda>g.
       let (added, s1) = allocate s (Title_object (js_or (title f) (slug g)))
       in and_then (post_of s1 props) (\<lambda>p'.
          and_then (title_of s1 added) (\<lambda>t.
            Inr (allocate s1 (Props_title_object p' t)))))))"

text \<open>
  The second stage reads \<^verbatim>\<open>post.frontmatter\<close>, \<^verbatim>\<open>post.fields\<close>, \<^verbatim>\<open>post.excerpt\<close> and
  \<^verbatim>\<open>title\<close> from the props that the first stage returned and builds the markup of
  \<open>PostLink_view\<close> from what it has read.
\<close>

definition PostLink_view_st :: "typography \<Rightarrow> store \<Rightarrow> addr \<Rightarrow> js_error + element \<times> store" where
  "PostLink_view_st ty s props =
     and_then (post_of s props) (\<lambda>p.
     and_then (frontmatter_of s p) (\<lambda>f.
     and_then (fields_of s p) (\<lambda>g.
     and_then (excerpt_of s p) (\<lambda>e.
     and_then (title_of s props) (\<lambda>t.
       Inr (PostLink_view ty
              \<lparr>post = \<lparr>excerpt = e, node_fields = g, frontmatter = f\<rparr>, link_title = t\<rparr>,
            s))))))"

definition PostLink_st :: "typography \<Rightarrow> store \<Rightarrow> addr \<Rightarrow> js_error + element \<times> store" where
  "PostLink_st ty s props =
     and_then (PostLink_addProps_st s props) (\<lambda>(props', s1). PostLink_view_st ty s1 props')"

text \<open>
  \<^verbatim>\<open>posts.map\<close> in \<^verbatim>\<open>BlogIndex\<close>: for each edge it reads \<^verbatim>\<open>node\<close> and
  \<^verbatim>\<open>node.fields.slug\<close> and makes the element \<^verbatim>\<open><PostLink post={node} key={slug} />\<close>,
  that is a key and a new props object. The elements are rendered afterwards, in their
  order, each by \<^verbatim>\<open>PostLink\<close> on its props.
\<close>

fun posts_map_st :: "store \<Rightarrow> addr list \<Rightarrow> js_error + (string \<times> addr) list \<times> store" where
  "posts_map_st s [] = Inr ([], s)"
| "posts_map_st s (e # es) =
     (case node_of s e of
        Inl err \<Rightarrow> Inl err
      | Inr n \<Rightarrow>
          (case fields_of s n of
             Inl err \<Rightarrow> Inl err
           | Inr g \<Rightarrow>
               (let (props, s1) = allocate s (Props_object n)
                in case posts_map_st s1 es of
                     Inl err \<Rightarrow> Inl err
                   | Inr (rest, s2) \<Rightarrow> Inr ((slug g, props) # rest, s2))))"

fun render_posts_st ::
  "typography \<Rightarrow> store \<Rightarrow> (string \<times> addr) list \<Rightarrow> js_error + element list \<times> store" where
  "render_posts_st ty s [] = Inr ([], s)"
| "render_posts_st ty s ((k, props) # r) =
     (case PostLink_st ty s props of
        Inl err \<Rightarrow> Inl err
      | Inr (out, s1) \<Rightarrow>
          (case render_posts_st ty s1 r of
             Inl err \<Rightarrow> Inl err
           | Inr (outs, s2) \<Rightarrow> Inr (Rendered ''PostLink'' (Some k) out # outs, s2)))"

text \<open>The \<^verbatim>\<open>data\<close> of \<^verbatim>\<open>BlogIndex\<close> with its edges as references into the store.\<close>

record stored_data =
  stored_site :: site
  stored_edges :: "addr list"

definition BlogIndex_st ::
  "typography \<Rightarrow> string \<Rightarrow> js_date \<Rightarrow> bio_data \<Rightarrow> store \<Rightarrow> stored_data \<Rightarrow> location
     \<Rightarrow> js_error + element \<times> store" where
  "BlogIndex_st ty PATH_PREFIX now bioQuery s data loc =
     (let siteTitle = site_title (siteMetadata (stored_site data));
          posts = stored_edges data
      in and_then (posts_map_st s posts) (\<lambda>(elems, s1).
         and_then (render_posts_st ty s1 elems) (\<lambda>(entries, s2).
           Inr (Rendered ''Layout'' None
                  (Layout ty PATH_PREFIX now
                     \<lparr>location = loc, layout_title = siteTitle,
                      children =
                        [Elem (External ''SEO'')
                           [(''title'', PString ''All posts''),
                            (''keywords'',
                             PStrings [''blog'', ''gatsby'', ''javascript'', ''react''])]
                           [],
                         Rendered ''Bio'' None (Bio ty bioQuery),
                         Arr entries]\<rparr>),
                s2))))"

text \<open>
  The post that the store holds at an address, with all its fields, and the edges that
  it holds at a list of addresses.
\<close>

definition read_node :: "store \<Rightarrow> addr \<Rightarrow> node option" where
  "read_node s a =
     (case (excerpt_of s a, fields_of s a, frontmatter_of s a) of
        (Inr e, Inr g, Inr f) \<Rightarrow> Some \<lparr>excerpt = e, node_fields = g, frontmatter = f\<rparr>
      | _ \<Rightarrow> None)"

fun read_edges :: "store \<Rightarrow> addr list \<Rightarrow> edge list option" where
  "read_edges s [] = Some []"
| "read_edges s (a # as) =
     (case node_of s a of
        Inl err \<Rightarrow> None
      | Inr n \<Rightarrow>
          (case read_node s n of
             None \<Rightarrow> None
           | Some x \<Rightarrow> map_option (\<lambda>es. \<lparr>node = x\<rparr> # es) (read_edges s as)))"

text \<open>An element that \<^verbatim>\<open>posts.map\<close> has made for an edge: its key and its props.\<close>

definition element_for :: "store \<Rightarrow> string \<times> addr \<Rightarrow> edge \<Rightarrow> bool" where
  "element_for s ka e =
     (fst ka = slug (node_fields (node e))
      \<and> (case deref s (snd ka) of
           Some (Props_object p) \<Rightarrow> read_node s p = Some (node e)
         | _ \<Rightarrow> False))"

section \<open>Reading markup\<close>

text \<open>
  All the elements of a tree, each before the ones below it, in document order.
\<close>

fun subtrees :: "element \<Rightarrow> element list" where
  "subtrees (Text s) = [Text s]"
| "subtrees (Num n) = [Num n]"
| "subtrees (Arr es) = Arr es # concat (map subtrees es)"
| "subtrees (Elem t ps cs) = Elem t ps cs # concat (map subtrees cs)"
| "subtrees (Rendered n k e) = Rendered n k e # subtrees e"

fun is_instance :: "string \<Rightarrow> element \<Rightarrow> bool" where
  "is_instance c (Rendered n k e) = (n = c)"
| "is_instance c _ = False"

fun is_elem :: "etype \<Rightarrow> element \<Rightarrow> bool" where
  "is_elem t (Elem u ps cs) = (u = t)"
| "is_elem t _ = False"

definition instances :: "string \<Rightarrow> element \<Rightarrow> element list" where
  "instances c e = filter (is_instance c) (subtrees e)"

definition find_elems :: "etype \<Rightarrow> element \<Rightarrow> element list" where
  "find_elems t e = filter (is_elem t) (subtrees e)"

fun key_of :: "element \<Rightarrow> string option" where
  "key_of (Rendered n k e) = k"
| "key_of _ = None"

fun elem_props :: "element \<Rightarrow> (string \<times> prop_value) list" where
  "elem_props (Elem t ps cs) = ps"
| "elem_props _ = []"

fun elem_children :: "element \<Rightarrow> element list" where
  "elem_children (Elem t ps cs) = cs"
| "elem_children _ = []"

fun text_of :: "element \<Rightarrow> string list" where
  "text_of (Text s) = [s]"
| "text_of _ = []"

text \<open>The \<^verbatim>\<open>to\<close> props and the children of the \<^verbatim>\<open>Link\<close> elements of a tree.\<close>

definition link_targets :: "element \<Rightarrow> prop_value option list" where
  "link_targets e = map (\<lambda>l. map_of (elem_props l) ''to'') (find_elems (External ''Link'') e)"

definition link_texts :: "element \<Rightarrow> element list list" where
  "link_texts e = map elem_children (find_elems (External ''Link'') e)"

text \<open>The texts inside the \<^verbatim>\<open>small\<close> elements of a tree: the dates it shows.\<close>

definition shown_dates :: "element \<Rightarrow> string list" where
  "shown_dates e =
     concat (map (\<lambda>s. concat (map text_of (elem_children s))) (find_elems (Host ''small'') e))"

text \<open>What the \<^verbatim>\<open>p\<close> elements of a tree take as \<^verbatim>\<open>dangerouslySetInnerHTML\<close>.\<close>

definition summaries :: "element \<Rightarrow> prop_value option list" where
  "summaries e =
     map (\<lambda>p. map_of (elem_props p) ''dangerouslySetInnerHTML'') (find_elems (Host ''p'') e)"

section \<open>The order of the dates on display\<close>

text \<open>
  \<^verbatim>\<open>pageQuery\<close> asks for the nodes by \<^verbatim>\<open>frontmatter___date\<close> in order
  \<^verbatim>\<open>DESC\<close> and for each date in the format \<^verbatim>\<open>MMMM DD, YYYY\<close>. \<open>date_desc a b\<close>
  reads two dates of this format and holds when \<open>a\<close> is not before \<open>b\<close>.
\<close>

definition month_names :: "string list" where
  "month_names = [''January'', ''February'', ''March'', ''April'', ''May'', ''June'', ''July'',
                  ''August'', ''September'', ''October'', ''November'', ''December'']"

fun index_of :: "'a \<Rightarrow> 'a list \<Rightarrow> nat option" where
  "index_of x [] = None"
| "index_of x (y # ys) = (if x = y then Some 0 else map_option Suc (index_of x ys))"

definition is_digit :: "char \<Rightarrow> bool" where
  "is_digit c = (48 \<le> (of_char c :: nat) \<and> (of_char c :: nat) \<le> 57)"

definition number :: "string \<Rightarrow> nat option" where
  "number s =
     (if s \<noteq> [] \<and> list_all is_digit s
      then Some (foldl (\<lambda>n c. 10 * n + (of_char c - 48)) 0 s)
      else None)"

definition parse_date :: "string \<Rightarrow> (nat \<times> nat \<times> nat) option" where
  "parse_date s =
     (let m = takeWhile (\<lambda>c. c \<noteq> CHR '' '') s;
          r = drop (length m + 1) s;
          d = takeWhile (\<lambda>c. c \<noteq> CHR '','') r;
          y = drop (length d + 2) r
      in case (number y, index_of m month_names, number d) of
           (Some yy, Some mm, Some dd) \<Rightarrow> Some (yy, mm, dd)
         | _ \<Rightarrow> None)"

definition date_desc :: "string \<Rightarrow> string \<Rightarrow> bool" where
  "date_desc a b =
     (case (parse_date a, parse_date b) of
        (Some (ya, ma, da), Some (yb, mb, db)) \<Rightarrow>
          yb < ya \<or> (yb = ya \<and> (mb < ma \<or> (mb = ma \<and> db \<le> da)))
      | _ \<Rightarrow> False)"

section \<open>The posts\<close>

text \<open>
  The head of each \<^verbatim>\<open>content/blog/*/index.md\<close>, line by line, down to the line after
  the front matter. The files are UTF-8; the bytes E2 80 9C, E2 80 9D and E2 80 99 are
  the curly quotes in three of the titles, 22 and 27 the straight double and single
  quote.
\<close>

definition ad_hok_intro_at_a_glance_md :: "string list" where
  "ad_hok_intro_at_a_glance_md =
     [''---'',
      ''title: '' @ [CHR 0x22] @ ''From vanilla React hooks to ad-hok: At a glance'' @ [CHR 0x22],
      ''date: '' @ [CHR 0x22] @ ''2019-09-27T09:00:00.000Z'' @ [CHR 0x22],
      ''---'',
      []]"

definition dynamic_portal_md :: "string list" where
  "dynamic_portal_md =
     [''---'',
      ''title: '' @ [CHR 0x22] @ ''Using dynamic portals in React to ''
        @ [CHR 0xE2, CHR 0x80, CHR 0x9C] @ ''play nice with'' @ [CHR 0xE2, CHR 0x80, CHR 0x9D]
        @ '' autoplay policy'' @ [CHR 0x22],
      ''date: '' @ [CHR 0x22] @ ''2019-06-09T20:02:38.000Z'' @ [CHR 0x22],
      ''---'',
      []]"

definition jiggle_webpack_md :: "string list" where
  "jiggle_webpack_md =
     [''---'',
      ''title: '' @ [CHR 0x27] @ ''Tip: '' @ [CHR 0xE2, CHR 0x80, CHR 0x9C] @ ''Jiggle''
        @ [CHR 0xE2, CHR 0x80, CHR 0x9D] @ '' Webpack when it can'' @ [CHR 0xE2, CHR 0x80, CHR 0x99]
        @ ''t resolve a new import'' @ [CHR 0x27],
      ''date: '' @ [CHR 0x22] @ ''2019-05-12T13:08:38.000Z'' @ [CHR 0x22],
      ''---'',
      []]"

definition slack_personal_activity_channel_md :: "string list" where
  "slack_personal_activity_channel_md =
     [''---'',
      ''title: '' @ [CHR 0x22] @ ''Slack tip: personal activity channel'' @ [CHR 0x22],
      ''date: '' @ [CHR 0x22] @ ''2019-05-12T13:15:38.000Z'' @ [CHR 0x22],
      ''---'',
      []]"

definition useeffectonpropchange_md :: "string list" where
  "useeffectonpropchange_md =
     [''---'',
      ''title: '' @ [CHR 0x22] @ ''Handy React hooks helper: useEffectOnPropChange()'' @ [CHR 0x22],
      ''date: '' @ [CHR 0x22] @ ''2019-06-09T18:02:38.000Z'' @ [CHR 0x22],
      ''---'',
      []]"

definition util_proptypes_md :: "string list" where
  "util_proptypes_md =
     [''---'',
      ''title: '' @ [CHR 0x22] @ ''React best practice: util/propTypes module'' @ [CHR 0x22],
      ''date: '' @ [CHR 0x22] @ ''2019-05-12T13:02:38.000Z'' @ [CHR 0x22],
      ''---'',
      []]"

definition blog_posts :: "string list list" where
  "blog_posts =
     [ad_hok_intro_at_a_glance_md, dynamic_portal_md, jiggle_webpack_md,
      slack_personal_activity_channel_md, useeffectonpropchange_md, util_proptypes_md]"

text \<open>
  The front matter of a file: the lines between a first line \<^verbatim>\<open>---\<close> and the next
  such line, each of them \<^verbatim>\<open>key: value\<close>.
\<close>

fun front_matter_block :: "string list \<Rightarrow> string list option" where
  "front_matter_block [] = None"
| "front_matter_block (l # ls) =
     (if l = ''---'' \<and> ''---'' \<in> set ls
      then Some (takeWhile (\<lambda>x. x \<noteq> ''---'') ls)
      else None)"

definition split_field :: "string \<Rightarrow> (string \<times> string) option" where
  "split_field l =
     (let k = takeWhile (\<lambda>c. c \<noteq> CHR '':'') l
      in if take 2 (drop (length k) l) = '': '' then Some (k, drop (length k + 2) l) else None)"

definition front_matter :: "string list \<Rightarrow> (string \<times> string) list option" where
  "front_matter file =
     (case front_matter_block file of
        None \<Rightarrow> None
      | Some ls \<Rightarrow> those (map split_field ls))"

text \<open>A value between two double or two single quotes is a string; this is what is between them.\<close>

fun unquote :: "string \<Rightarrow> string option" where
  "unquote [] = None"
| "unquote (q # r) =
     (if (q = CHR 0x22 \<or> q = CHR 0x27) \<and> r \<noteq> [] \<and> last r = q then Some (butlast r) else None)"

text \<open>
  The extended ISO 8601 format of a date and time in UTC with milliseconds,
  \<^verbatim>\<open>YYYY-MM-DDTHH:MM:SS.mmmZ\<close>, each part in its range.
\<close>

definition iso8601 :: "string \<Rightarrow> bool" where
  "iso8601 s =
     (length s = 24 \<and>
      map (\<lambda>i. s ! i) [4, 7, 10, 13, 16, 19, 23] = ''--T::.Z'' \<and>
      (case (number (take 4 s), number (take 2 (drop 5 s)), number (take 2 (drop 8 s)),
             number (take 2 (drop 11 s)), number (take 2 (drop 14 s)),
             number (take 2 (drop 17 s)), number (take 3 (drop 20 s))) of
         (Some y, Some mo, Some d, Some h, Some mi, Some se, Some ms) \<Rightarrow>
           1 \<le> mo \<and> mo \<le> 12 \<and> 1 \<le> d \<and> d \<le> 31 \<and> h \<le> 23 \<and> mi \<le> 59 \<and> se \<le> 59
       | _ \<Rightarrow> False))"

definition title_and_date :: "string list \<Rightarrow> bool" where
  "title_and_date file =
     (case front_matter file of
        None \<Rightarrow> False
      | Some fm \<Rightarrow>
          distinct (map fst fm) \<and> set (map fst fm) = {''title'', ''date''} \<and>
          (case map_of fm ''title'' of
             None \<Rightarrow> False
           | Some t \<Rightarrow> unquote t \<noteq> None) \<and>
          (case map_of fm ''date'' of
             None \<Rightarrow> False
           | Some d \<Rightarrow> (case unquote d of None \<Rightarrow> False | Some v \<Rightarrow> iso8601 v)))"

section \<open>Sample inputs\<close>

definition sample_rhythm :: "rat \<Rightarrow> string" where
  "sample_rhythm r = ''1.62rem''"

definition sample_scale :: "rat \<Rightarrow> style" where
  "sample_scale r = [(''fontSize'', CssStr ''2rem''), (''lineHeight'', CssStr ''3.24rem'')]"

definition sample_typography :: typography where
  "sample_typography = \<lparr>rhythm = sample_rhythm, scale = sample_scale\<rparr>"

definition last_of_2019 :: js_date where
  "last_of_2019 = \<lparr>full_year = 2019, month = 11, day = 31, hours = 23, minutes = 59,
                    seconds = 59, milliseconds = 999\<rparr>"

definition first_of_2020 :: js_date where
  "first_of_2020 = \<lparr>full_year = 2020, month = 0, day = 1, hours = 0, minutes = 0,
                     seconds = 0, milliseconds = 0\<rparr>"

definition autumn_2019 :: js_date where
  "autumn_2019 = \<lparr>full_year = 2019, month = 8, day = 27, hours = 9, minutes = 0,
                   seconds = 0, milliseconds = 0\<rparr>"

definition home :: location where
  "home = \<lparr>pathname = ''/''\<rparr>"

definition post_page :: location where
  "post_page = \<lparr>pathname = ''/dynamic-portal/''\<rparr>"

definition index_props :: layout_props where
  "index_props = \<lparr>location = home, layout_title = ''skribblin'', children = [Text ''posts'']\<rparr>"

definition post_props :: layout_props where
  "post_props =
     \<lparr>location = post_page, layout_title = ''skribblin'', children = [Text ''a post'']\<rparr>"

definition ad_hok_intro :: node where
  "ad_hok_intro =
     \<lparr>excerpt = ''ad-hok is a library that lets you use React hooks'',
      node_fields = \<lparr>slug = ''/ad-hok-intro-at-a-glance/''\<rparr>,
      frontmatter = \<lparr>title = Some ''From vanilla React hooks to ad-hok: At a glance'',
                     date = ''September 27, 2019'', description = None\<rparr>\<rparr>"

definition dynamic_portal :: node where
  "dynamic_portal =
     \<lparr>excerpt = ''The problem'',
      node_fields = \<lparr>slug = ''/dynamic-portal/''\<rparr>,
      frontmatter = \<lparr>title = Some [], date = ''June 09, 2019'',
                     description = Some ''Portals <em>and</em> autoplay''\<rparr>\<rparr>"

definition sample_data :: page_data where
  "sample_data =
     \<lparr>site = \<lparr>siteMetadata = \<lparr>site_title = ''skribblin''\<rparr>\<rparr>,
      allMarkdownRemark = \<lparr>edges = [\<lparr>node = ad_hok_intro\<rparr>, \<lparr>node = dynamic_portal\<rparr>]\<rparr>\<rparr>"

definition sample_bio :: bio_data where
  "sample_bio =
     \<lparr>bio_site = \<lparr>bio_siteMetadata =
        \<lparr>author = ''helixbass'', social = \<lparr>twitter = ''helixbass''\<rparr>\<rparr>\<rparr>\<rparr>"

definition other_bio :: bio_data where
  "other_bio =
     \<lparr>bio_site = \<lparr>bio_siteMetadata =
        \<lparr>author = ''helixbass'', social = \<lparr>twitter = ''somebody_else''\<rparr>\<rparr>\<rparr>\<rparr>"

text \<open>
  The two sample posts as objects, each with its edge, and the props of a
  \<^verbatim>\<open>PostLink\<close> for the second.
\<close>

definition sample_store :: store where
  "sample_store =
     [Fields_object (node_fields ad_hok_intro), Frontmatter_object (frontmatter ad_hok_intro),
      Node_object (excerpt ad_hok_intro) 0 1, Edge_object 2,
      Fields_object (node_fields dynamic_portal), Frontmatter_object (frontmatter dynamic_portal),
      Node_object (excerpt dynamic_portal) 4 5, Edge_object 6,
      Props_object 6]"

definition sample_stored_data :: stored_data where
  "sample_stored_data = \<lparr>stored_site = site sample_data, stored_edges = [3, 7]\<rparr>"

section \<open>Unfolding the components\<close>

lemmas component_defs =
  PostLink_def PostLink_view_def PostLink_addProps_def flow_def
  Layout_def Layout_view_def Layout_addProps_def Title_def
  Bio_def StaticQuery_def Bio_render_def

lemma filter_concat_map_single:
  "(\<And>x. filter P (g x) = [f x]) \<Longrightarrow> filter P (concat (map g xs)) = map f xs"
  by (induction xs) auto

lemma concat_map_concat_single:
  "(\<And>x. concat (map h (filter P (g x))) = [f x]) \<Longrightarrow>
   concat (map h (filter P (concat (map g xs)))) = map f xs"
  by (induction xs) auto

lemma instances_PostLink:
  "filter (is_instance ''PostLink'') (subtrees (Rendered ''PostLink'' k (PostLink ty p)))
     = [Rendered ''PostLink'' k (PostLink ty p)]"
  by (simp add: component_defs)

lemma dates_PostLink:
  "concat (map (\<lambda>s. concat (map text_of (elem_children s)))
     (filter (is_elem (Host ''small'')) (subtrees (Rendered ''PostLink'' k (PostLink ty p)))))
     = [date (frontmatter (post p))]"
  by (simp add: component_defs)

text \<open>
  The \<^verbatim>\<open>PostLink\<close> elements of the index are the ones that \<^verbatim>\<open>posts.map\<close> makes,
  one for each edge, in the order of the edges: nothing else in the page is a
  \<^verbatim>\<open>PostLink\<close>.
\<close>

lemma BlogIndex_instances:
  "instances ''PostLink'' (BlogIndex ty pfx now bio data loc) =
   map (\<lambda>e. Rendered ''PostLink'' (Some (slug (node_fields (node e)))) (PostLink ty \<lparr>post = node e\<rparr>))
       (edges (allMarkdownRemark data))"
proof -
  have "filter (is_instance ''PostLink'')
          (concat (map (\<lambda>e. subtrees (Rendered ''PostLink'' (Some (slug (node_fields (node e))))
                                         (PostLink ty \<lparr>post = node e\<rparr>))) xs))
     = map (\<lambda>e. Rendered ''PostLink'' (Some (slug (node_fields (node e))))
                  (PostLink ty \<lparr>post = node e\<rparr>)) xs" for xs :: "edge list"
    by (rule filter_concat_map_single) (rule instances_PostLink)
  then show ?thesis
    by (simp add: instances_def BlogIndex_def component_defs Let_def comp_def)
qed

lemma BlogIndex_shown_dates:
  "shown_dates (BlogIndex ty pfx now bio data loc) =
   map (\<lambda>e. date (frontmatter (node e))) (edges (allMarkdownRemark data))"
proof -
  have "concat (map (\<lambda>s. concat (map text_of (elem_children s)))
          (filter (is_elem (Host ''small''))
            (concat (map (\<lambda>e. subtrees (Rendered ''PostLink'' (Some (slug (node_fields (node e))))
                                         (PostLink ty \<lparr>post = node e\<rparr>))) xs))))
     = map (\<lambda>e. date (frontmatter (node e))) xs" for xs :: "edge list"
    by (rule concat_map_concat_single) (use dates_PostLink in simp)
  then show ?thesis
    by (simp add: shown_dates_def find_elems_def BlogIndex_def component_defs Let_def comp_def)
qed

section \<open>The list of posts\<close>

text \<open>
  C1. Whatever order \<open>newer\<close> on the dates the data layer sorts by: when the edges come
  sorted by it, the index holds exactly one \<^verbatim>\<open>PostLink\<close> for each edge, namely the one
  for the node of that edge, in the order of the edges; the dates on display are the
  dates of the nodes in that same order, so they are sorted as the edges are. The index
  does not reorder.
\<close>

theorem BlogIndex_one_entry_per_post_in_order:
  assumes "sorted_wrt newer (map (\<lambda>e. date (frontmatter (node e))) (edges (allMarkdownRemark data)))"
  shows "instances ''PostLink'' (BlogIndex ty pfx now bio data loc) =
           map (\<lambda>e. Rendered ''PostLink'' (Some (slug (node_fields (node e))))
                        (PostLink ty \<lparr>post = node e\<rparr>))
               (edges (allMarkdownRemark data))
       \<and> length (instances ''PostLink'' (BlogIndex ty pfx now bio data loc)) =
           length (edges (allMarkdownRemark data))
       \<and> shown_dates (BlogIndex ty pfx now bio data loc) =
           map (\<lambda>e. date (frontmatter (node e))) (edges (allMarkdownRemark data))
       \<and> sorted_wrt newer (shown_dates (BlogIndex ty pfx now bio data loc))"
  using assms by (simp add: BlogIndex_instances BlogIndex_shown_dates)

theorem BlogIndex_one_entry_per_post_in_order_witness:
  "sorted_wrt date_desc (map (\<lambda>e. date (frontmatter (node e))) (edges (allMarkdownRemark sample_data)))
   \<and> length (instances ''PostLink'' (BlogIndex sample_typography [] autumn_2019 sample_bio sample_data home)) = 2
   \<and> shown_dates (BlogIndex sample_typography [] autumn_2019 sample_bio sample_data home)
       = [''September 27, 2019'', ''June 09, 2019'']
   \<and> sorted_wrt date_desc (shown_dates (BlogIndex sample_typography [] autumn_2019 sample_bio sample_data home))"
proof -
  have h: "sorted_wrt date_desc
             (map (\<lambda>e. date (frontmatter (node e))) (edges (allMarkdownRemark sample_data)))"
    by (simp add: sample_data_def ad_hok_intro_def dynamic_portal_def date_desc_def
        parse_date_def number_def is_digit_def month_names_def)
  show ?thesis
    using h BlogIndex_one_entry_per_post_in_order [OF h, of sample_typography "[]" autumn_2019 sample_bio home]
    by (simp add: sample_data_def ad_hok_intro_def dynamic_portal_def)
qed

text \<open>
  C5. The slug of each post is the \<^verbatim>\<open>key\<close> of its \<^verbatim>\<open>PostLink\<close> in the index and the
  \<^verbatim>\<open>to\<close> of the one \<^verbatim>\<open>Link\<close> inside it; when the slugs of the posts are pairwise
  distinct, so are the keys of the entries.
\<close>

theorem BlogIndex_slug_is_key_and_target:
  "map key_of (instances ''PostLink'' (BlogIndex ty pfx now bio data loc))
     = map (\<lambda>e. Some (slug (node_fields (node e)))) (edges (allMarkdownRemark data))
   \<and> map link_targets (instances ''PostLink'' (BlogIndex ty pfx now bio data loc))
     = map (\<lambda>e. [Some (PString (slug (node_fields (node e))))]) (edges (allMarkdownRemark data))
   \<and> (distinct (map (\<lambda>e. slug (node_fields (node e))) (edges (allMarkdownRemark data))) \<longrightarrow>
        distinct (map key_of (instances ''PostLink'' (BlogIndex ty pfx now bio data loc))))"
proof -
  have "map (\<lambda>e. Some (slug (node_fields (node e)))) xs
          = map Some (map (\<lambda>e. slug (node_fields (node e))) xs)" for xs :: "edge list"
    by simp
  then have "distinct (map (\<lambda>e. slug (node_fields (node e))) xs) \<Longrightarrow>
             distinct (map (\<lambda>e. Some (slug (node_fields (node e)))) xs)" for xs :: "edge list"
    by (simp only: distinct_map) (auto intro: inj_onI comp_inj_on)
  then show ?thesis
    by (simp add: BlogIndex_instances comp_def link_targets_def find_elems_def component_defs)
qed

text \<open>Two posts of the repository, with their distinct slugs as keys.\<close>

theorem BlogIndex_slug_is_key_and_target_witness:
  "distinct (map (\<lambda>e. slug (node_fields (node e))) (edges (allMarkdownRemark sample_data)))
   \<and> map key_of (instances ''PostLink'' (BlogIndex sample_typography [] autumn_2019 sample_bio sample_data home))
       = [Some ''/ad-hok-intro-at-a-glance/'', Some ''/dynamic-portal/'']
   \<and> distinct (map key_of (instances ''PostLink'' (BlogIndex sample_typography [] autumn_2019 sample_bio sample_data home)))"
proof -
  have h: "distinct (map (\<lambda>e. slug (node_fields (node e))) (edges (allMarkdownRemark sample_data)))"
    by (simp add: sample_data_def ad_hok_intro_def dynamic_portal_def)
  show ?thesis
    using h BlogIndex_slug_is_key_and_target
              [of sample_typography "[]" autumn_2019 sample_bio sample_data home]
    by (simp add: sample_data_def ad_hok_intro_def dynamic_portal_def)
qed

section \<open>One post\<close>

text \<open>
  C4. The \<^verbatim>\<open>p\<close> of a \<^verbatim>\<open>PostLink\<close> takes the description of the post when the front
  matter has one and it is not empty, and the excerpt of the post otherwise.
\<close>

theorem PostLink_summary:
  "(\<forall>d. description (frontmatter n) = Some d \<and> d \<noteq> [] \<longrightarrow>
          summaries (PostLink ty \<lparr>post = n\<rparr>) = [Some (PHtml d)])
   \<and> (description (frontmatter n) = None \<or> description (frontmatter n) = Some [] \<longrightarrow>
          summaries (PostLink ty \<lparr>post = n\<rparr>) = [Some (PHtml (excerpt n))])"
  by (auto simp add: component_defs summaries_def find_elems_def)

text \<open>A post with a description, and one without.\<close>

theorem PostLink_summary_witness:
  "description (frontmatter dynamic_portal) = Some ''Portals <em>and</em> autoplay''
   \<and> summaries (PostLink sample_typography \<lparr>post = dynamic_portal\<rparr>)
        = [Some (PHtml ''Portals <em>and</em> autoplay'')]
   \<and> description (frontmatter ad_hok_intro) = None
   \<and> summaries (PostLink sample_typography \<lparr>post = ad_hok_intro\<rparr>)
        = [Some (PHtml ''ad-hok is a library that lets you use React hooks'')]"
  using PostLink_summary [of dynamic_portal sample_typography]
        PostLink_summary [of ad_hok_intro sample_typography]
  by (simp add: dynamic_portal_def ad_hok_intro_def)

text \<open>
  C9. When the title of a post is missing or empty, the text of the link of its
  \<^verbatim>\<open>PostLink\<close> is the slug; when the title is a string that is not empty, it is the
  title.
\<close>

theorem PostLink_title_or_slug:
  "(title (frontmatter n) = None \<or> title (frontmatter n) = Some [] \<longrightarrow>
        link_texts (PostLink ty \<lparr>post = n\<rparr>) = [[Text (slug (node_fields n))]])
   \<and> (\<forall>t. title (frontmatter n) = Some t \<and> t \<noteq> [] \<longrightarrow>
        link_texts (PostLink ty \<lparr>post = n\<rparr>) = [[Text t]])"
  by (auto simp add: component_defs link_texts_def find_elems_def)

text \<open>A post with an empty title, and one with a title.\<close>

theorem PostLink_title_or_slug_witness:
  "title (frontmatter dynamic_portal) = Some []
   \<and> link_texts (PostLink sample_typography \<lparr>post = dynamic_portal\<rparr>) = [[Text ''/dynamic-portal/'']]
   \<and> title (frontmatter ad_hok_intro) = Some ''From vanilla React hooks to ad-hok: At a glance''
   \<and> link_texts (PostLink sample_typography \<lparr>post = ad_hok_intro\<rparr>)
        = [[Text ''From vanilla React hooks to ad-hok: At a glance'']]"
  using PostLink_title_or_slug [of dynamic_portal sample_typography]
        PostLink_title_or_slug [of ad_hok_intro sample_typography]
  by (simp add: dynamic_portal_def ad_hok_intro_def)

text \<open>
  C10. The one \<^verbatim>\<open>p\<close> of a \<^verbatim>\<open>PostLink\<close> has no children and no prop but
  \<^verbatim>\<open>dangerouslySetInnerHTML\<close>, whose \<^verbatim>\<open>__html\<close> is the string that
  \<^verbatim>\<open>description || excerpt\<close> gives, character for character: \<^verbatim>\<open>PostLink\<close> neither
  escapes nor cleans it, for any post.
\<close>

theorem PostLink_summary_is_raw_html:
  "find_elems (Host ''p'') (PostLink ty \<lparr>post = n\<rparr>) =
     [Elem (Host ''p'')
        [(''dangerouslySetInnerHTML'',
          PHtml (js_or (description (frontmatter n)) (excerpt n)))]
        []]"
  by (simp add: component_defs find_elems_def)

section \<open>Rendering in the store\<close>

lemmas reads =
  post_of_def title_of_def node_of_def frontmatter_of_def fields_of_def excerpt_of_def

lemma deref_append: "deref s a = Some x \<Longrightarrow> deref (s @ t) a = Some x"
  by (auto simp add: deref_def nth_append split: if_splits)

lemma deref_new: "deref (s @ x # t) (length s) = Some x"
  by (simp add: deref_def)

lemma read_node_cases:
  "read_node s a = Some n \<longleftrightarrow>
     (\<exists>fl fm. deref s a = Some (Node_object (excerpt n) fl fm)
        \<and> deref s fl = Some (Fields_object (node_fields n))
        \<and> deref s fm = Some (Frontmatter_object (frontmatter n)))"
  by (cases n) (auto simp add: read_node_def reads split: option.splits js_object.splits)

lemma read_node_append: "read_node s a = Some n \<Longrightarrow> read_node (s @ t) a = Some n"
  unfolding read_node_cases by (blast intro: deref_append)

lemma read_node_reads:
  "read_node s a = Some n \<Longrightarrow>
     excerpt_of s a = Inr (excerpt n) \<and> fields_of s a = Inr (node_fields n)
     \<and> frontmatter_of s a = Inr (frontmatter n)"
  unfolding read_node_cases by (auto simp add: reads)

lemma element_for_cases:
  "element_for s ka e \<longleftrightarrow>
     fst ka = slug (node_fields (node e))
     \<and> (\<exists>p. deref s (snd ka) = Some (Props_object p) \<and> read_node s p = Some (node e))"
  by (auto simp add: element_for_def split: option.splits js_object.splits)

lemma element_for_append: "element_for s ka e \<Longrightarrow> element_for (s @ t) ka e"
  unfolding element_for_cases by (blast intro: deref_append read_node_append)

lemma read_edges_append: "read_edges s as = Some es \<Longrightarrow> read_edges (s @ t) as = Some es"
proof (induction as arbitrary: es)
  case Nil
  then show ?case by simp
next
  case (Cons a as)
  from Cons.prems obtain n x es' where
    n: "deref s a = Some (Edge_object n)" and x: "read_node s n = Some x"
    and r: "read_edges s as = Some es'" and es: "es = \<lparr>node = x\<rparr> # es'"
    by (auto simp add: node_of_def split: option.splits js_object.splits sum.splits)
  show ?case
    using deref_append [OF n, of t] read_node_append [OF x, of t] Cons.IH [OF r] es
    by (simp add: node_of_def)
qed

text \<open>
  One \<^verbatim>\<open>PostLink\<close>: the run ends well, with the markup of the component on the post
  that the store holds, and the store has two objects more.
\<close>

lemma PostLink_st_run:
  assumes "deref s props = Some (Props_object p)" and "read_node s p = Some n"
  shows "PostLink_st ty s props =
           Inr (PostLink ty \<lparr>post = n\<rparr>,
                s @ [Title_object (js_or (title (frontmatter n)) (slug (node_fields n))),
                     Props_title_object p (js_or (title (frontmatter n)) (slug (node_fields n)))])"
proof -
  let ?t = "js_or (title (frontmatter n)) (slug (node_fields n))"
  let ?s1 = "s @ [Title_object ?t]"
  let ?s2 = "?s1 @ [Props_title_object p ?t]"
  have p0: "post_of s props = Inr p"
    using assms(1) by (simp add: post_of_def)
  have p1: "post_of ?s1 props = Inr p"
    using deref_append [OF assms(1)] by (simp add: post_of_def)
  have t1: "title_of ?s1 (length s) = Inr ?t"
    by (simp add: title_of_def deref_new)
  have stage1: "PostLink_addProps_st s props = Inr (Suc (length s), ?s2)"
    using p0 p1 t1 read_node_reads [OF assms(2)]
    by (simp add: PostLink_addProps_st_def and_then_def allocate_def)
  have n2: "read_node ?s2 p = Some n"
    using read_node_append [OF read_node_append [OF assms(2)]] .
  have d2: "deref ?s2 (Suc (length s)) = Some (Props_title_object p ?t)"
    using deref_new [of ?s1 "Props_title_object p ?t" "[]"] by simp
  have eta: "\<lparr>excerpt = excerpt n, node_fields = node_fields n, frontmatter = frontmatter n\<rparr> = n"
    by (cases n) simp
  have stage2: "PostLink_view_st ty ?s2 (Suc (length s)) =
                  Inr (PostLink_view ty \<lparr>post = n, link_title = ?t\<rparr>, ?s2)"
    using read_node_reads [OF n2] d2
    by (simp add: PostLink_view_st_def and_then_def post_of_def title_of_def eta)
  show ?thesis
    using stage1 stage2
    by (simp add: PostLink_st_def and_then_def PostLink_def flow_def PostLink_addProps_def)
qed

lemma posts_map_st_run:
  "read_edges s as = Some es \<Longrightarrow>
   \<exists>elems new. posts_map_st s as = Inr (elems, s @ new)
      \<and> list_all2 (element_for (s @ new)) elems es"
proof (induction as arbitrary: s es)
  case Nil
  then show ?case by simp
next
  case (Cons a as)
  from Cons.prems obtain n x es' where
    n: "deref s a = Some (Edge_object n)" and x: "read_node s n = Some x"
    and r: "read_edges s as = Some es'" and es: "es = \<lparr>node = x\<rparr> # es'"
    by (auto simp add: node_of_def split: option.splits js_object.splits sum.splits)
  let ?s1 = "s @ [Props_object n]"
  from Cons.IH [OF read_edges_append [OF r, of "[Props_object n]"]] obtain elems new where
    run: "posts_map_st ?s1 as = Inr (elems, ?s1 @ new)"
    and ok: "list_all2 (element_for (?s1 @ new)) elems es'"
    by blast
  have hd_ok: "element_for (?s1 @ new) (slug (node_fields x), length s) \<lparr>node = x\<rparr>"
    using deref_new [of s "Props_object n" new] read_node_append [OF x, of "Props_object n # new"]
    by (auto simp add: element_for_cases)
  have "posts_map_st s (a # as) =
          Inr ((slug (node_fields x), length s) # elems, s @ Props_object n # new)"
    using n run read_node_reads [OF x] by (simp add: node_of_def allocate_def)
  with ok hd_ok es show ?case
    by (intro exI [of _ "(slug (node_fields x), length s) # elems"]
              exI [of _ "Props_object n # new"])
       simp
qed

lemma render_posts_st_run:
  "list_all2 (element_for s) elems es \<Longrightarrow>
   \<exists>new. render_posts_st ty s elems =
           Inr (map (\<lambda>e. Rendered ''PostLink'' (Some (slug (node_fields (node e))))
                            (PostLink ty \<lparr>post = node e\<rparr>)) es,
                s @ new)"
proof (induction elems arbitrary: s es)
  case Nil
  then show ?case by simp
next
  case (Cons ka elems)
  from Cons.prems obtain e es' where es: "es = e # es'"
    and ka: "element_for s ka e" and rest: "list_all2 (element_for s) elems es'"
    by (auto simp add: list_all2_Cons1)
  obtain k a where [simp]: "ka = (k, a)" by (cases ka)
  from ka obtain p where k: "k = slug (node_fields (node e))"
    and a: "deref s a = Some (Props_object p)" and p: "read_node s p = Some (node e)"
    by (auto simp add: element_for_cases)
  let ?t = "js_or (title (frontmatter (node e))) (slug (node_fields (node e)))"
  let ?new = "[Title_object ?t, Props_title_object p ?t]"
  have one: "PostLink_st ty s a = Inr (PostLink ty \<lparr>post = node e\<rparr>, s @ ?new)"
    by (rule PostLink_st_run [OF a p])
  have "list_all2 (element_for (s @ ?new)) elems es'"
    using rest by (auto intro: list_all2_mono element_for_append)
  from Cons.IH [OF this] obtain new where
    "render_posts_st ty (s @ ?new) elems =
       Inr (map (\<lambda>e. Rendered ''PostLink'' (Some (slug (node_fields (node e))))
                        (PostLink ty \<lparr>post = node e\<rparr>)) es',
            (s @ ?new) @ new)"
    by blast
  with one k es show ?case
    by (intro exI [of _ "?new @ new"]) simp
qed

lemma BlogIndex_st_run:
  assumes "read_edges s (stored_edges d) = Some es"
  shows "\<exists>new. BlogIndex_st ty pfx now bio s d loc =
           Inr (BlogIndex ty pfx now bio
                  \<lparr>site = stored_site d, allMarkdownRemark = \<lparr>edges = es\<rparr>\<rparr> loc,
                s @ new)"
proof -
  from posts_map_st_run [OF assms] obtain elems new1 where
    m: "posts_map_st s (stored_edges d) = Inr (elems, s @ new1)"
    and ok: "list_all2 (element_for (s @ new1)) elems es"
    by blast
  from render_posts_st_run [OF ok, of ty] obtain new2 where
    r: "render_posts_st ty (s @ new1) elems =
          Inr (map (\<lambda>e. Rendered ''PostLink'' (Some (slug (node_fields (node e))))
                           (PostLink ty \<lparr>post = node e\<rparr>)) es,
               (s @ new1) @ new2)"
    by blast
  show ?thesis
    using m r
    by (intro exI [of _ "new1 @ new2"])
       (simp add: BlogIndex_st_def BlogIndex_def and_then_def Let_def)
qed

text \<open>
  C8. Rendering does not write to the post data. When the store holds a post at the
  address that the props of a \<^verbatim>\<open>PostLink\<close> refer to, the run of \<^verbatim>\<open>PostLink\<close> on these
  props ends well with the markup of the component for that post; the store after it is
  the store before it, every object as it was, followed by the two objects that
  \<^verbatim>\<open>addProps\<close> makes; and the post read back from it is the same in title, slug, date,
  description and excerpt. When the store holds the edges of the index, the run of
  \<^verbatim>\<open>BlogIndex\<close> ends well with the markup of the index for these edges; the store after
  it is the store before it followed by new objects, and the edges read back from it are
  the same.
\<close>

theorem rendering_leaves_post_data_unchanged:
  "(deref s props = Some (Props_object p) \<and> read_node s p = Some n \<longrightarrow>
      PostLink_st ty s props =
        Inr (PostLink ty \<lparr>post = n\<rparr>,
             s @ [Title_object (js_or (title (frontmatter n)) (slug (node_fields n))),
                  Props_title_object p (js_or (title (frontmatter n)) (slug (node_fields n)))])
      \<and> read_node
          (s @ [Title_object (js_or (title (frontmatter n)) (slug (node_fields n))),
                Props_title_object p (js_or (title (frontmatter n)) (slug (node_fields n)))])
          p = Some n)
   \<and> (read_edges s (stored_edges d) = Some es \<longrightarrow>
        (\<exists>new. BlogIndex_st ty pfx now bio s d loc =
                  Inr (BlogIndex ty pfx now bio
                         \<lparr>site = stored_site d, allMarkdownRemark = \<lparr>edges = es\<rparr>\<rparr> loc,
                       s @ new)
               \<and> read_edges (s @ new) (stored_edges d) = Some es))"
  using PostLink_st_run [of s props p n ty] read_node_append [of s p n]
        BlogIndex_st_run [of s d es ty pfx now bio loc] read_edges_append [of s "stored_edges d" es]
  by blast

text \<open>The sample store: one post through \<^verbatim>\<open>PostLink\<close>, and both through the index.\<close>

theorem rendering_leaves_post_data_unchanged_witness:
  "deref sample_store 8 = Some (Props_object 6)
   \<and> read_node sample_store 6 = Some dynamic_portal
   \<and> PostLink_st sample_typography sample_store 8 =
       Inr (PostLink sample_typography \<lparr>post = dynamic_portal\<rparr>,
            sample_store @ [Title_object ''/dynamic-portal/'',
                            Props_title_object 6 ''/dynamic-portal/''])
   \<and> read_node (sample_store @ [Title_object ''/dynamic-portal/'',
                                Props_title_object 6 ''/dynamic-portal/'']) 6
       = Some dynamic_portal
   \<and> read_edges sample_store (stored_edges sample_stored_data)
       = Some (edges (allMarkdownRemark sample_data))
   \<and> (\<exists>new. BlogIndex_st sample_typography [] autumn_2019 sample_bio sample_store
               sample_stored_data home =
               Inr (BlogIndex sample_typography [] autumn_2019 sample_bio sample_data home,
                    sample_store @ new)
            \<and> read_edges (sample_store @ new) (stored_edges sample_stored_data)
                = Some (edges (allMarkdownRemark sample_data)))"
proof -
  have d: "deref sample_store 8 = Some (Props_object 6)"
    by (simp add: deref_def sample_store_def)
  have n: "read_node sample_store 6 = Some dynamic_portal"
    by (simp add: read_node_def reads deref_def sample_store_def dynamic_portal_def)
  have e: "read_edges sample_store (stored_edges sample_stored_data)
             = Some (edges (allMarkdownRemark sample_data))"
    by (simp add: read_node_def reads deref_def sample_store_def sample_stored_data_def
        sample_data_def dynamic_portal_def ad_hok_intro_def)
  have sd: "\<lparr>site = stored_site sample_stored_data,
             allMarkdownRemark = \<lparr>edges = edges (allMarkdownRemark sample_data)\<rparr>\<rparr> = sample_data"
    by (simp add: sample_stored_data_def sample_data_def)
  have t: "js_or (title (frontmatter dynamic_portal)) (slug (node_fields dynamic_portal))
             = ''/dynamic-portal/''"
    by (simp add: dynamic_portal_def)
  show ?thesis
    using d n e
      rendering_leaves_post_data_unchanged
        [of sample_store 8 6 dynamic_portal sample_typography sample_stored_data
            "edges (allMarkdownRemark sample_data)" "[]" autumn_2019 sample_bio home]
    by (simp add: sd t)
qed

section \<open>The header and the footer\<close>

text \<open>
  C2. \<^verbatim>\<open>Layout\<close> puts one heading into its \<^verbatim>\<open>header\<close>. Whatever the location and the
  title, the heading holds the title as the text of a \<^verbatim>\<open>Link\<close> to \<^verbatim>\<open>/\<close>. The
  heading is an \<^verbatim>\<open>h1\<close> when the pathname of the location is \<^verbatim>\<open>rootPath\<close>, with the
  style that \<^verbatim>\<open>scale(1.5)\<close> gives except for the two margins set after it; for any
  other pathname it is an \<^verbatim>\<open>h3\<close> whose style has a font family and a top margin and
  nothing of \<^verbatim>\<open>scale\<close>.
\<close>

theorem Layout_header_by_route:
  "(\<exists>st ft. Layout ty pfx now props =
       Elem (Host ''div'') st
         [Elem (Host ''header'') [] [header (Layout_addProps ty pfx props)],
          Elem (Host ''main'') [] (children props), ft])
   \<and> link_targets (header (Layout_addProps ty pfx props)) = [Some (PString ''/'')]
   \<and> link_texts (header (Layout_addProps ty pfx props)) = [[Text (layout_title props)]]
   \<and> (pathname (location props) = rootPath pfx \<longrightarrow>
        (\<exists>hs. header (Layout_addProps ty pfx props) =
                 Elem (Host ''h1'') [(''style'', PStyle hs)]
                   [Rendered ''Title'' None (Title (layout_title props))]
            \<and> map_of hs = (map_of (scale ty 1.5))
                 (''marginBottom'' \<mapsto> CssStr (rhythm ty 1.5), ''marginTop'' \<mapsto> CssNum 0)))
   \<and> (pathname (location props) \<noteq> rootPath pfx \<longrightarrow>
        header (Layout_addProps ty pfx props) =
          Elem (Host ''h3'')
            [(''style'', PStyle [(''fontFamily'', CssStr ''Montserrat, sans-serif''),
                                 (''marginTop'', CssNum 0)])]
            [Rendered ''Title'' None (Title (layout_title props))])"
  by (simp add: component_defs link_targets_def link_texts_def find_elems_def update_conv')

text \<open>The home page and the page of a post, with no path prefix.\<close>

theorem Layout_header_by_route_witness:
  "pathname (location index_props) = rootPath []
   \<and> is_elem (Host ''h1'') (header (Layout_addProps sample_typography [] index_props))
   \<and> pathname (location post_props) \<noteq> rootPath []
   \<and> is_elem (Host ''h3'') (header (Layout_addProps sample_typography [] post_props))
   \<and> link_targets (header (Layout_addProps sample_typography [] post_props)) = [Some (PString ''/'')]"
  using Layout_header_by_route [of sample_typography "[]" autumn_2019 index_props]
        Layout_header_by_route [of sample_typography "[]" autumn_2019 post_props]
  by (auto simp add: rootPath_def index_props_def post_props_def home_def post_page_def)

text \<open>
  The footer holds \<^verbatim>\<open>new Date().getFullYear()\<close>: the same props give one markup in the
  last second of 2019 and another in the first second of 2020.
\<close>

theorem Layout_footer_year_counterexample:
  "Layout sample_typography [] last_of_2019 index_props
     \<noteq> Layout sample_typography [] first_of_2020 index_props"
  by (simp add: component_defs getFullYear_def last_of_2019_def first_of_2020_def)

text \<open>
  C3, amended. The markup of \<^verbatim>\<open>Layout\<close>, and of \<^verbatim>\<open>BlogIndex\<close> which renders it, is a
  function of the input and of the year of the clock: two evaluations on the same input
  at moments of the same year give the same markup. The \<^verbatim>\<open>PostLink\<close> entries of the
  index are the same at any two moments.
\<close>

theorem markup_depends_on_clock_by_year_only:
  "(getFullYear now1 = getFullYear now2 \<longrightarrow>
      Layout ty pfx now1 props = Layout ty pfx now2 props
      \<and> BlogIndex ty pfx now1 bio data loc = BlogIndex ty pfx now2 bio data loc)
   \<and> instances ''PostLink'' (BlogIndex ty pfx now1 bio data loc)
       = instances ''PostLink'' (BlogIndex ty pfx now2 bio data loc)"
proof -
  have "getFullYear now1 = getFullYear now2 \<Longrightarrow>
          Layout ty pfx now1 props = Layout ty pfx now2 props"
    by (simp add: Layout_def flow_def Layout_view_def)
  moreover have "getFullYear now1 = getFullYear now2 \<Longrightarrow>
          BlogIndex ty pfx now1 bio data loc = BlogIndex ty pfx now2 bio data loc"
    by (simp add: BlogIndex_def Layout_def flow_def Layout_view_def)
  moreover have "instances ''PostLink'' (BlogIndex ty pfx now1 bio data loc)
       = instances ''PostLink'' (BlogIndex ty pfx now2 bio data loc)"
    by (simp only: BlogIndex_instances)
  ultimately show ?thesis by blast
qed

text \<open>Two different moments of 2019.\<close>

theorem markup_depends_on_clock_by_year_only_witness:
  "autumn_2019 \<noteq> last_of_2019 \<and> getFullYear autumn_2019 = getFullYear last_of_2019
   \<and> Layout sample_typography [] autumn_2019 index_props
       = Layout sample_typography [] last_of_2019 index_props
   \<and> BlogIndex sample_typography [] autumn_2019 sample_bio sample_data home
       = BlogIndex sample_typography [] last_of_2019 sample_bio sample_data home"
proof -
  have y: "getFullYear autumn_2019 = getFullYear last_of_2019"
    by (simp add: getFullYear_def autumn_2019_def last_of_2019_def)
  have d: "autumn_2019 \<noteq> last_of_2019"
    by (simp add: autumn_2019_def last_of_2019_def)
  show ?thesis
    using y d
      markup_depends_on_clock_by_year_only
        [of autumn_2019 last_of_2019 sample_typography "[]" index_props sample_bio sample_data home]
    by simp
qed

section \<open>The bio\<close>

text \<open>
  C6. Two results of \<^verbatim>\<open>bioQuery\<close> with the same author give the same markup of
  \<^verbatim>\<open>Bio\<close>, whatever else they hold: \<^verbatim>\<open>social.twitter\<close> is queried and not used.
\<close>

theorem Bio_depends_on_author_only:
  "author (bio_siteMetadata (bio_site d1)) = author (bio_siteMetadata (bio_site d2)) \<Longrightarrow>
   Bio ty d1 = Bio ty d2"
  by (simp add: Bio_def StaticQuery_def Bio_render_def)

text \<open>One author under two twitter names.\<close>

theorem Bio_depends_on_author_only_witness:
  "author (bio_siteMetadata (bio_site sample_bio)) = author (bio_siteMetadata (bio_site other_bio))
   \<and> twitter (social (bio_siteMetadata (bio_site sample_bio)))
       \<noteq> twitter (social (bio_siteMetadata (bio_site other_bio)))
   \<and> Bio sample_typography sample_bio = Bio sample_typography other_bio"
proof -
  have a: "author (bio_siteMetadata (bio_site sample_bio))
             = author (bio_siteMetadata (bio_site other_bio))"
    by (simp add: sample_bio_def other_bio_def)
  show ?thesis
    using a Bio_depends_on_author_only [OF a, of sample_typography]
    by (simp add: sample_bio_def other_bio_def)
qed

section \<open>The front matter of the posts\<close>

text \<open>
  C7. Each of the six posts starts with a front matter block whose fields are
  \<^verbatim>\<open>title\<close> and \<^verbatim>\<open>date\<close> and no other, the title a quoted string and the date a
  quoted ISO 8601 date and time.
\<close>

theorem blog_posts_front_matter:
  "length blog_posts = 6 \<and> list_all title_and_date blog_posts"
  by (simp add: blog_posts_def title_and_date_def front_matter_def split_field_def iso8601_def
      number_def is_digit_def ad_hok_intro_at_a_glance_md_def dynamic_portal_md_def
      jiggle_webpack_md_def slack_personal_activity_channel_md_def useeffectonpropchange_md_def
      util_proptypes_md_def)

end
